theory Spec2Isabelle
  imports
    Main
    "HOL-Library.Word"
    "HOL-Library.Finite_Map"
    "HOL-Library.Char_ord"
    "HOL-Library.List_Lexorder"
begin

section \<open>gocache: an in-memory cache with expiration\<close>

text \<open>
  The development follows \<^verbatim>\<open>item.go\<close>, \<^verbatim>\<open>errors.go\<close> and \<^verbatim>\<open>cache.go\<close> of the
  package \<^verbatim>\<open>gocache\<close>.

  \<^item> Go's \<^verbatim>\<open>int64\<close> and \<^verbatim>\<open>time.Duration\<close> (an \<^verbatim>\<open>int64\<close> of nanoseconds) are
    64-bit words read as two's complement: \<open>+\<close> wraps, the comparisons of the source are
    the signed ones (\<open><s\<close>, \<open>\<le>s\<close>).
  \<^item> Every call of \<^verbatim>\<open>time.Now().UnixNano()\<close> is an extra argument of the function
    that makes it, one argument per call. \<^verbatim>\<open>time.Now().Add(d).UnixNano()\<close> is the
    clock reading plus \<open>d\<close> in \<^verbatim>\<open>int64\<close> arithmetic: the \<^verbatim>\<open>time\<close> package
    computes seconds times \<open>10^9\<close> plus nanoseconds in \<^verbatim>\<open>int64\<close>, which wraps around
    for an instant after the year 2262 (its documentation leaves that result open).
  \<^item> An \<^verbatim>\<open>interface{}\<close> value is either \<^verbatim>\<open>nil\<close> or holds a payload.
  \<^item> A Go \<^verbatim>\<open>error\<close> result is \<open>None\<close> for \<^verbatim>\<open>nil\<close> and \<open>Some e\<close> otherwise;
    a function returning \<^verbatim>\<open>(interface{}, error)\<close> returns the pair.
  \<^item> The map \<^verbatim>\<open>map[string]Item\<close> is a finite map; methods take the cache and return
    their result together with the cache they leave behind.
  \<^item> The methods are modelled as run by one caller at a time: the mutex
    \<^verbatim>\<open>mu\<close> serialises the critical sections and has no state of its own here.
  \<^item> The channel \<^verbatim>\<open>stopCleanup\<close> is unbuffered and holds no value between calls;
    what matters is whether the cleanup goroutine is there to receive from it.
\<close>

subsection \<open>Data\<close>

type_synonym int64 = "64 word"

datatype 'v iface = nil | Val 'v

text \<open>\<^verbatim>\<open>errors.go\<close>: the three package-level errors; \<open>OtherError\<close> stands for any error
  value that is none of them (a compute function may return one).\<close>

datatype 'e error = ErrKeyNotFound | ErrKeyExpired | ErrNilValue | OtherError 'e

record 'v Item =
  Value :: "'v iface"
  Expiration :: int64

record Options =
  DefaultExpiration :: int64
  CleanupInterval :: int64

record 'v Cache =
  items :: "(string, 'v Item) fmap"
  defaultExpiration :: int64
  cleanupInterval :: int64

text \<open>The goroutine running \<^verbatim>\<open>startCleanupRoutine\<close>: never started, inside its
  \<^verbatim>\<open>for\<close>/\<^verbatim>\<open>select\<close> loop, or returned.\<close>

datatype routine = NotStarted | Running | Returned

subsection \<open>item.go\<close>

definition Expired :: "'v Item \<Rightarrow> int64 \<Rightarrow> bool" where
  "Expired item now = (if Expiration item = 0 then False else Expiration item <s now)"

subsection \<open>cache.go\<close>

definition SetWithExpiration ::
  "'v Cache \<Rightarrow> string \<Rightarrow> 'v iface \<Rightarrow> int64 \<Rightarrow> int64 \<Rightarrow> 'e error option \<times> 'v Cache" where
  "SetWithExpiration c key val duration now =
     (if val = nil then (Some ErrNilValue, c)
      else
        let expiration = (if 0 <s duration then now + duration else 0)
        in (None, c\<lparr>items := fmupd key \<lparr>Value = val, Expiration = expiration\<rparr> (items c)\<rparr>))"

definition Set :: "'v Cache \<Rightarrow> string \<Rightarrow> 'v iface \<Rightarrow> int64 \<Rightarrow> 'e error option \<times> 'v Cache" where
  "Set c key val now = SetWithExpiration c key val (defaultExpiration c) now"

text \<open>\<^verbatim>\<open>Get\<close> calls \<^verbatim>\<open>Expired\<close> twice, so it reads the clock twice: \<open>now1\<close> for the
  check on the copy taken under the read lock, \<open>now2\<close> for the check repeated under the
  write lock.\<close>

definition Get ::
  "'v Cache \<Rightarrow> string \<Rightarrow> int64 \<Rightarrow> int64 \<Rightarrow> ('v iface \<times> 'e error option) \<times> 'v Cache" where
  "Get c key now1 now2 =
     (case fmlookup (items c) key of
        None \<Rightarrow> ((nil, Some ErrKeyNotFound), c)
      | Some item \<Rightarrow>
          if Expired item now1 then
            ((nil, Some ErrKeyExpired),
             (case fmlookup (items c) key of
                None \<Rightarrow> c
              | Some item' \<Rightarrow>
                  if Expired item' now2 then c\<lparr>items := fmdrop key (items c)\<rparr> else c))
          else ((Value item, None), c))"

text \<open>The compute function of \<^verbatim>\<open>GetOrSet\<close> is a Go closure: it may fail, and it may
  change the cache and the rest of the program's state \<open>'w\<close> before it returns.\<close>

type_synonym ('v, 'e, 'w) compute =
  "'v Cache \<Rightarrow> 'w \<Rightarrow> ('v iface \<times> 'e error option) \<times> 'v Cache \<times> 'w"

definition GetOrSet ::
  "'v Cache \<Rightarrow> 'w \<Rightarrow> string \<Rightarrow> ('v, 'e, 'w) compute \<Rightarrow> int64 \<Rightarrow> int64 \<Rightarrow> int64
     \<Rightarrow> ('v iface \<times> 'e error option) \<times> 'v Cache \<times> 'w" where
  "GetOrSet c w key fn now1 now2 now3 =
     (case (Get c key now1 now2 :: ('v iface \<times> 'e error option) \<times> 'v Cache) of
        ((val, err), c1) \<Rightarrow>
          if err = None then ((val, None), c1, w)
          else
            (case fn c1 w of
               ((val, err), c2, w2) \<Rightarrow>
                 if err \<noteq> None then ((nil, err), c2, w2)
                 else
                   (case Set c2 key val now3 of
                      (err, c3) \<Rightarrow>
                        if err \<noteq> None then ((nil, err), c3, w2)
                        else ((val, None), c3, w2))))"

definition Delete :: "'v Cache \<Rightarrow> string \<Rightarrow> bool \<times> 'v Cache" where
  "Delete c key =
     (case fmlookup (items c) key of
        Some _ \<Rightarrow> (True, c\<lparr>items := fmdrop key (items c)\<rparr>)
      | None \<Rightarrow> (False, c))"

text \<open>A \<^verbatim>\<open>range\<close> over a Go map visits, in an order the language leaves open, every
  entry that is in the map when the loop starts and has not been deleted before it is
  reached. The loops below take the order as the list of keys to visit;
  \<open>range_keys\<close> fixes one order, and \<open>DeleteExpired_loop_lookup\<close> and
  \<open>Items_loop_lookup\<close> show that the order does not matter.\<close>

definition range_keys :: "(string, 'a) fmap \<Rightarrow> string list" where
  "range_keys m = sorted_list_of_fset (fmdom m)"

fun DeleteExpired_loop ::
  "int64 \<Rightarrow> string list \<Rightarrow> (string, 'v Item) fmap \<Rightarrow> (string, 'v Item) fmap" where
  "DeleteExpired_loop now [] m = m"
| "DeleteExpired_loop now (k # ks) m =
     (case fmlookup m k of
        None \<Rightarrow> DeleteExpired_loop now ks m
      | Some v \<Rightarrow>
          if 0 <s Expiration v \<and> Expiration v <s now
          then DeleteExpired_loop now ks (fmdrop k m)
          else DeleteExpired_loop now ks m)"

definition DeleteExpired :: "'v Cache \<Rightarrow> int64 \<Rightarrow> 'v Cache" where
  "DeleteExpired c now = c\<lparr>items := DeleteExpired_loop now (range_keys (items c)) (items c)\<rparr>"

fun Items_loop ::
  "int64 \<Rightarrow> string list \<Rightarrow> (string, 'v Item) fmap \<Rightarrow> (string, 'v iface) fmap
     \<Rightarrow> (string, 'v iface) fmap" where
  "Items_loop now [] m acc = acc"
| "Items_loop now (k # ks) m acc =
     (case fmlookup m k of
        None \<Rightarrow> Items_loop now ks m acc
      | Some v \<Rightarrow>
          if Expiration v = 0 \<or> now <s Expiration v
          then Items_loop now ks m (fmupd k (Value v) acc)
          else Items_loop now ks m acc)"

definition Items :: "'v Cache \<Rightarrow> int64 \<Rightarrow> (string, 'v iface) fmap \<times> 'v Cache" where
  "Items c now = (Items_loop now (range_keys (items c)) (items c) fmempty, c)"

definition ItemCount :: "'v Cache \<Rightarrow> int \<times> 'v Cache" where
  "ItemCount c = (int (fcard (fmdom (items c))), c)"

definition Flush :: "'v Cache \<Rightarrow> 'v Cache" where
  "Flush c = c\<lparr>items := fmempty\<rparr>"

definition New :: "Options \<Rightarrow> 'v Cache \<times> routine" where
  "New options =
     (\<lparr>items = fmempty,
       defaultExpiration = DefaultExpiration options,
       cleanupInterval = CleanupInterval options\<rparr>,
      if 0 <s CleanupInterval options then Running else NotStarted)"

text \<open>\<^verbatim>\<open>startCleanupRoutine\<close> loops over a \<^verbatim>\<open>select\<close> with two cases. The list is
  the sequence of cases that fire: a tick of the ticker, with the clock
  \<^verbatim>\<open>DeleteExpired\<close> then reads, or a value received from \<^verbatim>\<open>stopCleanup\<close>. When
  the list is used up the goroutine is waiting in the \<^verbatim>\<open>select\<close>.\<close>

datatype select_case = TickerC int64 | StopCleanup

fun startCleanupRoutine :: "'v Cache \<Rightarrow> select_case list \<Rightarrow> 'v Cache \<times> routine" where
  "startCleanupRoutine c [] = (c, Running)"
| "startCleanupRoutine c (TickerC now # cases) = startCleanupRoutine (DeleteExpired c now) cases"
| "startCleanupRoutine c (StopCleanup # cases) = (c, Returned)"

text \<open>\<^verbatim>\<open>Stop\<close> sends on \<^verbatim>\<open>stopCleanup\<close>, which \<^verbatim>\<open>New\<close> makes with
  \<^verbatim>\<open>make(chan bool)\<close>: an unbuffered channel, on which a send completes only when a
  receiver takes the value. The only receive on this channel is the \<^verbatim>\<open>select\<close> of
  \<^verbatim>\<open>startCleanupRoutine\<close>. So the send completes when that goroutine is in its loop,
  and the goroutine then returns; with no such goroutine the send never completes, and
  \<open>Stop\<close> is \<open>None\<close>: the call does not return.\<close>

definition Stop :: "'v Cache \<times> routine \<Rightarrow> ('v Cache \<times> routine) option" where
  "Stop s =
     (case s of
        (c, r) \<Rightarrow>
          if 0 <s cleanupInterval c then
            (case r of
               Running \<Rightarrow> Some (startCleanupRoutine c [StopCleanup])
             | NotStarted \<Rightarrow> None
             | Returned \<Rightarrow> None)
          else Some (c, r))"

subsection \<open>Compute functions used as examples\<close>

text \<open>The closure of \<^verbatim>\<open>TestCacheGetOrSet\<close> counts its calls in a variable of the test
  and returns a value; the program state \<open>'w\<close> of these examples is that counter. The
  other two return \<^verbatim>\<open>(nil, nil)\<close> and an error of their own.\<close>

definition getValue :: "(nat, unit, nat) compute" where
  "getValue c computeCount = ((Val 42, None), c, computeCount + 1)"

definition getNil :: "(nat, unit, nat) compute" where
  "getNil c computeCount = ((nil, None), c, computeCount + 1)"

definition getError :: "(nat, unit, nat) compute" where
  "getError c computeCount = ((Val 42, Some (OtherError ())), c, computeCount + 1)"


section \<open>Properties of the two range loops\<close>

text \<open>Both loops are characterised entry by entry, for any list of keys to visit.\<close>

lemma DeleteExpired_loop_lookup:
  "fmlookup (DeleteExpired_loop now ks m) k =
     (case fmlookup m k of
        None \<Rightarrow> None
      | Some v \<Rightarrow> if k \<in> set ks \<and> 0 <s Expiration v \<and> Expiration v <s now then None else Some v)"
proof (induction ks arbitrary: m)
  case Nil
  then show ?case by (simp split: option.splits)
next
  case (Cons a ks)
  then show ?case by (auto split: option.splits)
qed

lemma Items_loop_lookup:
  "fmlookup (Items_loop now ks m acc) k =
     (case fmlookup m k of
        None \<Rightarrow> fmlookup acc k
      | Some v \<Rightarrow> if k \<in> set ks \<and> (Expiration v = 0 \<or> now <s Expiration v) then Some (Value v) else fmlookup acc k)"
proof (induction ks arbitrary: acc)
  case Nil
  then show ?case by (simp split: option.splits)
next
  case (Cons a ks)
  then show ?case by (auto split: option.splits)
qed

lemma set_range_keys: "set (range_keys m) = fmdom' m"
  by (simp add: range_keys_def fmdom'_alt_def)

lemma DeleteExpired_lookup:
  "fmlookup (items (DeleteExpired c now)) k =
     (case fmlookup (items c) k of
        None \<Rightarrow> None
      | Some v \<Rightarrow> if 0 <s Expiration v \<and> Expiration v <s now then None else Some v)"
  by (auto simp: DeleteExpired_def DeleteExpired_loop_lookup set_range_keys fmdom'I split: option.splits)

lemma Items_lookup:
  "fmlookup (fst (Items c now)) k =
     (case fmlookup (items c) k of
        None \<Rightarrow> None
      | Some v \<Rightarrow> if Expiration v = 0 \<or> now <s Expiration v then Some (Value v) else None)"
  by (auto simp: Items_def Items_loop_lookup set_range_keys fmdom'I split: option.splits)

lemma fcard_split: "fcard (ffilter P A) + fcard (ffilter (\<lambda>x. \<not> P x) A) = fcard A"
proof -
  have "ffilter P A |\<union>| ffilter (\<lambda>x. \<not> P x) A = A" by auto
  moreover have "ffilter P A |\<inter>| ffilter (\<lambda>x. \<not> P x) A = {||}" by auto
  ultimately show ?thesis by (metis fcard_funion_disjoint)
qed

lemma sint_add_no_overflow:
  fixes a b :: int64
  assumes "0 <s b" "sint a + sint b < 2 ^ 63"
  shows "sint (a + b) = sint a + sint b"
proof -
  have "0 < sint b" using assms(1) by (simp add: word_sless_alt)
  moreover have "- (2 ^ 63) \<le> sint a" using sint_ge [of a] by simp
  ultimately have "- (2 ^ 63) \<le> sint a + sint b" by linarith
  then show ?thesis
    using assms(2) by (simp add: sint_word_ariths signed_take_bit_int_eq_self)
qed

lemma Get_never_expiring:
  "Get (c\<lparr>items := fmupd key \<lparr>Value = val, Expiration = 0\<rparr> (items c)\<rparr>) key t1 t2
     = ((val, None), c\<lparr>items := fmupd key \<lparr>Value = val, Expiration = 0\<rparr> (items c)\<rparr>)"
  by (simp add: Get_def Expired_def)

section \<open>Get\<close>

text \<open>
  C1. For every key, \<^verbatim>\<open>Get(key)\<close> has exactly three outcomes, one for each of three
  cases that exclude each other and leave nothing out. If the key is absent it fails with
  \<^verbatim>\<open>ErrKeyNotFound\<close> and the store is unchanged. If the key is present with a non-zero
  expiration strictly earlier than the current time it fails with \<^verbatim>\<open>ErrKeyExpired\<close>
  and the store it leaves is the old one without the entry at \<open>key\<close>. If the key is
  present and not expired it returns the stored value with no error and the store is
  unchanged. The current time is the first clock reading of the call; the second reading
  is taken later, so it is not earlier.
\<close>

theorem Get_three_outcomes:
  fixes c :: "'v Cache"
  assumes "now1 \<le>s now2"
  shows "(fmlookup (items c) key = None \<longrightarrow>
            Get c key now1 now2 = ((nil, Some (ErrKeyNotFound :: 'e error)), c))
       \<and> (\<forall>item. fmlookup (items c) key = Some item
              \<and> Expiration item \<noteq> 0 \<and> Expiration item <s now1 \<longrightarrow>
            Get c key now1 now2
              = ((nil, Some (ErrKeyExpired :: 'e error)), c\<lparr>items := fmdrop key (items c)\<rparr>))
       \<and> (\<forall>item. fmlookup (items c) key = Some item
              \<and> \<not> (Expiration item \<noteq> 0 \<and> Expiration item <s now1) \<longrightarrow>
            Get c key now1 now2 = ((Value item, None :: 'e error option), c))"
  using assms by (auto simp: Get_def Expired_def)

theorem Get_three_outcomes_witness:
  "(10 :: int64) \<le>s 20
   \<and> Get \<lparr>items = fmupd ''a'' \<lparr>Value = Val (1::nat), Expiration = 5\<rparr>
                      (fmupd ''b'' \<lparr>Value = Val 2, Expiration = 0\<rparr> fmempty),
           defaultExpiration = 0, cleanupInterval = 0\<rparr> ''c'' 10 20
       = ((nil, Some (ErrKeyNotFound :: unit error)),
          \<lparr>items = fmupd ''a'' \<lparr>Value = Val 1, Expiration = 5\<rparr>
                      (fmupd ''b'' \<lparr>Value = Val 2, Expiration = 0\<rparr> fmempty),
           defaultExpiration = 0, cleanupInterval = 0\<rparr>)
   \<and> Get \<lparr>items = fmupd ''a'' \<lparr>Value = Val (1::nat), Expiration = 5\<rparr>
                      (fmupd ''b'' \<lparr>Value = Val 2, Expiration = 0\<rparr> fmempty),
           defaultExpiration = 0, cleanupInterval = 0\<rparr> ''a'' 10 20
       = ((nil, Some (ErrKeyExpired :: unit error)),
          \<lparr>items = fmupd ''b'' \<lparr>Value = Val 2, Expiration = 0\<rparr> fmempty,
           defaultExpiration = 0, cleanupInterval = 0\<rparr>)
   \<and> Get \<lparr>items = fmupd ''a'' \<lparr>Value = Val (1::nat), Expiration = 5\<rparr>
                      (fmupd ''b'' \<lparr>Value = Val 2, Expiration = 0\<rparr> fmempty),
           defaultExpiration = 0, cleanupInterval = 0\<rparr> ''b'' 10 20
       = ((Val 2, None :: unit error option),
          \<lparr>items = fmupd ''a'' \<lparr>Value = Val 1, Expiration = 5\<rparr>
                      (fmupd ''b'' \<lparr>Value = Val 2, Expiration = 0\<rparr> fmempty),
           defaultExpiration = 0, cleanupInterval = 0\<rparr>)"
proof -
  let ?c = "\<lparr>items = fmupd ''a'' \<lparr>Value = Val (1::nat), Expiration = 5\<rparr>
                      (fmupd ''b'' \<lparr>Value = Val 2, Expiration = 0\<rparr> fmempty),
           defaultExpiration = 0, cleanupInterval = 0\<rparr>"
  have le: "(10 :: int64) \<le>s 20" by simp
  note G = Get_three_outcomes [OF le, where ?'e = unit and c = ?c]
  have "fmdrop ''a'' (items ?c) = fmupd ''b'' \<lparr>Value = Val 2, Expiration = 0\<rparr> fmempty"
    by (simp add: fmdrop_fmupd)
  then show ?thesis
    using le G [where key = "''c''"] G [where key = "''a''"] G [where key = "''b''"]
    by (simp add: word_sless_alt)
qed

section \<open>Set and SetWithExpiration\<close>

text \<open>
  C6. For every key and every prior store, \<^verbatim>\<open>Set(key, nil)\<close> fails with
  \<^verbatim>\<open>ErrNilValue\<close> and returns the store as it was: the whole mapping, the entry at
  \<open>key\<close> included, and the configuration are unchanged.
\<close>

theorem Set_nil_rejected:
  "Set c key nil now = (Some ErrNilValue, c)"
  by (simp add: Set_def SetWithExpiration_def)

text \<open>
  What \<^verbatim>\<open>SetWithExpiration\<close> stores for a non-nil value. With a duration above zero
  the expiration is \<open>now + duration\<close> in \<^verbatim>\<open>int64\<close> addition, which is the sum of
  the two integers whenever that sum is below \<open>2 ^ 63\<close>. With duration zero the
  expiration is the sentinel 0, and \<^verbatim>\<open>Get\<close> returns the value at every later pair of
  clock readings, whatever default expiration the store is configured with. In both
  cases the store it leaves is the old one with exactly the entry at \<open>key\<close> set to the
  new item.
\<close>

theorem SetWithExpiration_stores:
  fixes c :: "'v Cache"
  assumes "val \<noteq> nil"
  shows "(0 <s duration \<longrightarrow>
            (SetWithExpiration c key val duration now :: 'e error option \<times> 'v Cache) = (None, c\<lparr>items := fmupd key \<lparr>Value = val, Expiration = now + duration\<rparr> (items c)\<rparr>))
       \<and> (0 <s duration \<and> sint now + sint duration < 2 ^ 63 \<longrightarrow>
            map_option (\<lambda>it. sint (Expiration it)) (fmlookup (items (snd (SetWithExpiration c key val duration now :: 'e error option \<times> 'v Cache))) key)
              = Some (sint now + sint duration))
       \<and> (duration = 0 \<longrightarrow>
            (SetWithExpiration c key val duration now :: 'e error option \<times> 'v Cache) = (None, c\<lparr>items := fmupd key \<lparr>Value = val, Expiration = 0\<rparr> (items c)\<rparr>)
            \<and> (\<forall>t1 t2. Get (snd (SetWithExpiration c key val duration now :: 'e error option \<times> 'v Cache)) key t1 t2 = ((val, None :: 'e error option), snd (SetWithExpiration c key val duration now :: 'e error option \<times> 'v Cache))))"
  using assms
  by (auto simp: SetWithExpiration_def Get_never_expiring sint_add_no_overflow)

theorem SetWithExpiration_stores_witness:
  "Val (7::nat) \<noteq> nil
   \<and> SetWithExpiration \<lparr>items = fmempty, defaultExpiration = 50, cleanupInterval = 0\<rparr>
        ''k'' (Val (7::nat)) 30 100
       = (None :: unit error option,
          \<lparr>items = fmupd ''k'' \<lparr>Value = Val 7, Expiration = 130\<rparr> fmempty,
           defaultExpiration = 50, cleanupInterval = 0\<rparr>)
   \<and> SetWithExpiration \<lparr>items = fmempty, defaultExpiration = 50, cleanupInterval = 0\<rparr>
        ''k'' (Val (7::nat)) 0 100
       = (None :: unit error option,
          \<lparr>items = fmupd ''k'' \<lparr>Value = Val 7, Expiration = 0\<rparr> fmempty,
           defaultExpiration = 50, cleanupInterval = 0\<rparr>)
   \<and> map_option (\<lambda>it. sint (Expiration it))
        (fmlookup (items (snd (SetWithExpiration
            \<lparr>items = fmempty, defaultExpiration = 50, cleanupInterval = 0\<rparr>
            ''k'' (Val (7::nat)) 30 100 :: unit error option \<times> nat Cache))) ''k'')
       = Some 130"
proof -
  have nn: "Val (7::nat) \<noteq> nil" by simp
  note S = SetWithExpiration_stores [OF nn, where ?'e = unit and key = "''k''" and now = 100
      and c = "\<lparr>items = fmempty, defaultExpiration = 50, cleanupInterval = 0\<rparr>"]
  show ?thesis
    using nn S [where duration = 30] S [where duration = 0]
    by (simp add: word_sless_alt)
qed

text \<open>
  C4 says that for every duration above zero \<^verbatim>\<open>SetWithExpiration\<close> stores the item
  with absolute expiration \<open>now + duration\<close>. With the largest duration, at a clock of
  1790000000000000000 ns, the sum of the two is 11013372036854775807, which no
  \<^verbatim>\<open>int64\<close> holds: the expiration stored is -7433372036854775809, an instant before
  the call. The entry is expired as soon as it is stored, and \<^verbatim>\<open>Get\<close> at the very
  instant of the store evicts it with \<^verbatim>\<open>ErrKeyExpired\<close>.
\<close>

theorem SetWithExpiration_overflow_expired_at_birth:
  "(0 :: int64) <s 9223372036854775807
   \<and> SetWithExpiration \<lparr>items = fmempty, defaultExpiration = 0, cleanupInterval = 0\<rparr>
       ''k'' (Val (1::nat)) 9223372036854775807 1790000000000000000
     = (None :: unit error option,
        \<lparr>items = fmupd ''k'' \<lparr>Value = Val 1, Expiration = - 7433372036854775809\<rparr> fmempty,
         defaultExpiration = 0, cleanupInterval = 0\<rparr>)
   \<and> sint (1790000000000000000 :: int64) + sint (9223372036854775807 :: int64)
     = 11013372036854775807
   \<and> sint (- 7433372036854775809 :: int64) = - 7433372036854775809
   \<and> Expired \<lparr>Value = Val (1::nat), Expiration = - 7433372036854775809\<rparr> 1790000000000000000
   \<and> Get \<lparr>items = fmupd ''k'' \<lparr>Value = Val (1::nat), Expiration = - 7433372036854775809\<rparr> fmempty,
          defaultExpiration = 0, cleanupInterval = 0\<rparr>
        ''k'' 1790000000000000000 1790000000000000000
     = ((nil, Some (ErrKeyExpired :: unit error)),
        \<lparr>items = fmempty, defaultExpiration = 0, cleanupInterval = 0\<rparr>)"
  by code_simp

text \<open>
  C9. For every key and non-nil value, \<^verbatim>\<open>SetWithExpiration\<close> with a strictly negative
  duration stores an item with expiration 0, exactly as the call with duration 0 does,
  and \<^verbatim>\<open>Get\<close> returns the value at every later pair of clock readings: the entry
  never expires.
\<close>

theorem SetWithExpiration_negative_duration:
  fixes c :: "'v Cache"
  assumes "val \<noteq> nil" and "duration <s 0"
  shows "(SetWithExpiration c key val duration now :: 'e error option \<times> 'v Cache) = (None, c\<lparr>items := fmupd key \<lparr>Value = val, Expiration = 0\<rparr> (items c)\<rparr>)
       \<and> (SetWithExpiration c key val duration now :: 'e error option \<times> 'v Cache) = SetWithExpiration c key val 0 now
       \<and> (\<forall>t1 t2. Get (snd (SetWithExpiration c key val duration now :: 'e error option \<times> 'v Cache)) key t1 t2 = ((val, None :: 'e error option), snd (SetWithExpiration c key val duration now :: 'e error option \<times> 'v Cache)))"
proof -
  have "\<not> 0 <s duration" using assms(2) by (simp add: word_sless_alt)
  then show ?thesis
    using assms(1) by (simp add: SetWithExpiration_def Get_never_expiring)
qed

theorem SetWithExpiration_negative_duration_witness:
  "Val (7::nat) \<noteq> nil \<and> (- 5 :: int64) <s 0
   \<and> SetWithExpiration \<lparr>items = fmempty, defaultExpiration = 50, cleanupInterval = 0\<rparr>
        ''k'' (Val (7::nat)) (- 5) 100
       = (None :: unit error option,
          \<lparr>items = fmupd ''k'' \<lparr>Value = Val 7, Expiration = 0\<rparr> fmempty,
           defaultExpiration = 50, cleanupInterval = 0\<rparr>)"
proof -
  have nn: "Val (7::nat) \<noteq> nil" by simp
  have neg: "(- 5 :: int64) <s 0" by (simp add: word_sless_alt)
  show ?thesis
    using nn neg
      SetWithExpiration_negative_duration [OF nn neg, where ?'e = unit and key = "''k''"
        and now = 100
        and c = "\<lparr>items = fmempty, defaultExpiration = 50, cleanupInterval = 0\<rparr>"]
    by simp
qed

section \<open>ItemCount\<close>

text \<open>
  C8. For every store, \<^verbatim>\<open>ItemCount()\<close> returns the number of entries in the mapping
  and leaves the store as it was. Entries that are expired at the time of the call are
  counted like the others: at any time \<open>now\<close> the count is the number of expired entries
  plus the number of entries that are not expired.
\<close>

theorem ItemCount_counts_all_entries:
  "snd (ItemCount c) = c
   \<and> fst (ItemCount c) = int (fcard (fmdom (items c)))
   \<and> fst (ItemCount c) =
       int (fcard (ffilter (\<lambda>k. \<exists>v. fmlookup (items c) k = Some v \<and> Expired v now) (fmdom (items c))))
     + int (fcard (ffilter (\<lambda>k. \<exists>v. fmlookup (items c) k = Some v \<and> \<not> Expired v now) (fmdom (items c))))"
proof -
  let ?P = "\<lambda>k. \<exists>v. fmlookup (items c) k = Some v \<and> Expired v now"
  have "ffilter (\<lambda>k. \<exists>v. fmlookup (items c) k = Some v \<and> \<not> Expired v now) (fmdom (items c))
      = ffilter (\<lambda>k. \<not> ?P k) (fmdom (items c))"
    by (auto simp: fmlookup_dom_iff)
  then show ?thesis
    using fcard_split [of ?P "fmdom (items c)"] by (simp add: ItemCount_def)
qed

section \<open>GetOrSet\<close>

lemma Get_success_unchanged:
  "Get c key now1 now2 = ((v, None), c1) \<Longrightarrow> c1 = c"
  by (auto simp: Get_def split: option.splits if_splits)

lemma Get_fails_store:
  fixes c :: "'v Cache"
  assumes "fmlookup (items c) key = None
           \<or> (\<exists>item. fmlookup (items c) key = Some item \<and> Expired item now1)"
  shows "\<exists>e c1. (Get c key now1 now2 :: ('v iface \<times> 'e error option) \<times> 'v Cache) = ((nil, Some e), c1)
           \<and> (c1 = c \<or> c1 = c\<lparr>items := fmdrop key (items c)\<rparr>)
           \<and> (now1 \<le>s now2 \<longrightarrow> fmlookup (items c1) key = None)"
  using assms
  by (auto simp: Get_def Expired_def split: option.splits)

text \<open>
  C5, as stated, fails where the compute function succeeds with a \<^verbatim>\<open>nil\<close> value: on a
  store without the key, \<^verbatim>\<open>Get\<close> fails, the compute function returns
  \<^verbatim>\<open>(nil, nil)\<close>, and \<^verbatim>\<open>GetOrSet\<close> does not return that value with no error: it
  fails with \<^verbatim>\<open>ErrNilValue\<close> and stores nothing.
\<close>

theorem GetOrSet_nil_counterexample:
  "(Get \<lparr>items = fmempty, defaultExpiration = 60, cleanupInterval = 0\<rparr> ''k'' 10 10
      :: (nat iface \<times> unit error option) \<times> nat Cache)
     = ((nil, Some ErrKeyNotFound), \<lparr>items = fmempty, defaultExpiration = 60, cleanupInterval = 0\<rparr>)
   \<and> getNil \<lparr>items = fmempty, defaultExpiration = 60, cleanupInterval = 0\<rparr> 0
     = ((nil, None), \<lparr>items = fmempty, defaultExpiration = 60, cleanupInterval = 0\<rparr>, 1)
   \<and> fst (GetOrSet \<lparr>items = fmempty, defaultExpiration = 60, cleanupInterval = 0\<rparr> 0 ''k''
             getNil 10 10 10) \<noteq> (nil, None)
   \<and> GetOrSet \<lparr>items = fmempty, defaultExpiration = 60, cleanupInterval = 0\<rparr> 0 ''k''
        getNil 10 10 10
     = ((nil, Some ErrNilValue),
        \<lparr>items = fmempty, defaultExpiration = 60, cleanupInterval = 0\<rparr>, 1)"
  by (simp add: GetOrSet_def Get_def getNil_def Set_def SetWithExpiration_def)

text \<open>
  C5, amended. For every key and compute function: if \<^verbatim>\<open>Get(key)\<close> succeeds, the store
  is unchanged and \<^verbatim>\<open>GetOrSet\<close> returns the cached value without invoking the compute
  function (the result is the same for every compute function, and the program state is
  the one before the call). Otherwise it invokes the compute function on the store that
  \<^verbatim>\<open>Get\<close> left. When that fails, \<^verbatim>\<open>GetOrSet\<close> returns the very same error and the
  store and program state are those the compute function left: nothing is stored. When it
  succeeds with a non-nil value, the value is stored via \<^verbatim>\<open>Set\<close>, with the default
  expiration applied at the time of the store, and returned. When it succeeds with
  \<^verbatim>\<open>nil\<close>, \<^verbatim>\<open>Set\<close> rejects the value and \<^verbatim>\<open>GetOrSet\<close> fails with
  \<^verbatim>\<open>ErrNilValue\<close>, storing nothing.
\<close>

theorem GetOrSet_outcomes:
  fixes c :: "'v Cache" and fn :: "('v, 'e, 'w) compute"
  shows "(\<forall>v. Get c key now1 now2 = ((v, None :: 'e error option), c1) \<longrightarrow>
            c1 = c \<and> GetOrSet c w key fn now1 now2 now3 = ((v, None), c, w))
       \<and> (\<forall>v0 e0 v e c2 w2.
            Get c key now1 now2 = ((v0, Some (e0 :: 'e error)), c1)
              \<and> fn c1 w = ((v, Some e), c2, w2) \<longrightarrow>
            GetOrSet c w key fn now1 now2 now3 = ((nil, Some e), c2, w2))
       \<and> (\<forall>v0 e0 x c2 w2.
            Get c key now1 now2 = ((v0, Some (e0 :: 'e error)), c1)
              \<and> fn c1 w = ((Val x, None), c2, w2) \<longrightarrow>
            GetOrSet c w key fn now1 now2 now3
              = ((Val x, None), snd (Set c2 key (Val x) now3 :: 'e error option \<times> 'v Cache), w2)
            \<and> (Set c2 key (Val x) now3 :: 'e error option \<times> 'v Cache)
              = (None, c2\<lparr>items := fmupd key
                   \<lparr>Value = Val x,
                    Expiration = (if 0 <s defaultExpiration c2 then now3 + defaultExpiration c2 else 0)\<rparr>
                   (items c2)\<rparr>))
       \<and> (\<forall>v0 e0 c2 w2.
            Get c key now1 now2 = ((v0, Some (e0 :: 'e error)), c1)
              \<and> fn c1 w = ((nil, None), c2, w2) \<longrightarrow>
            GetOrSet c w key fn now1 now2 now3 = ((nil, Some ErrNilValue), c2, w2))"
proof (intro conjI allI impI)
  fix v assume "Get c key now1 now2 = ((v, None :: 'e error option), c1)"
  then show "c1 = c" by (rule Get_success_unchanged)
next
  fix v assume g: "Get c key now1 now2 = ((v, None :: 'e error option), c1)"
  then have "c1 = c" by (rule Get_success_unchanged)
  with g show "GetOrSet c w key fn now1 now2 now3 = ((v, None), c, w)"
    by (simp add: GetOrSet_def)
next
  fix v0 e0 v e c2 w2
  assume "Get c key now1 now2 = ((v0, Some (e0 :: 'e error)), c1) \<and> fn c1 w = ((v, Some e), c2, w2)"
  then show "GetOrSet c w key fn now1 now2 now3 = ((nil, Some e), c2, w2)"
    by (simp add: GetOrSet_def)
next
  fix v0 e0 x c2 w2
  assume "Get c key now1 now2 = ((v0, Some (e0 :: 'e error)), c1) \<and> fn c1 w = ((Val x, None), c2, w2)"
  then show "GetOrSet c w key fn now1 now2 now3
              = ((Val x, None), snd (Set c2 key (Val x) now3 :: 'e error option \<times> 'v Cache), w2)"
    by (simp add: GetOrSet_def Set_def SetWithExpiration_def)
next
  fix x :: 'v and c2 :: "'v Cache"
  show "(Set c2 key (Val x) now3 :: 'e error option \<times> 'v Cache)
              = (None, c2\<lparr>items := fmupd key
                   \<lparr>Value = Val x,
                    Expiration = (if 0 <s defaultExpiration c2 then now3 + defaultExpiration c2 else 0)\<rparr>
                   (items c2)\<rparr>)"
    by (simp add: Set_def SetWithExpiration_def)
next
  fix v0 e0 c2 w2
  assume "Get c key now1 now2 = ((v0, Some (e0 :: 'e error)), c1) \<and> fn c1 w = ((nil, None), c2, w2)"
  then show "GetOrSet c w key fn now1 now2 now3 = ((nil, Some ErrNilValue), c2, w2)"
    by (simp add: GetOrSet_def Set_def SetWithExpiration_def)
qed

theorem GetOrSet_outcomes_witness:
  "GetOrSet \<lparr>items = fmupd ''b'' \<lparr>Value = Val 2, Expiration = 0\<rparr> fmempty,
             defaultExpiration = 60, cleanupInterval = 0\<rparr> 0 ''b'' getValue 10 10 10
     = ((Val 2, None),
        \<lparr>items = fmupd ''b'' \<lparr>Value = Val 2, Expiration = 0\<rparr> fmempty,
         defaultExpiration = 60, cleanupInterval = 0\<rparr>, 0)
   \<and> GetOrSet \<lparr>items = fmupd ''b'' \<lparr>Value = Val 2, Expiration = 0\<rparr> fmempty,
             defaultExpiration = 60, cleanupInterval = 0\<rparr> 0 ''k'' getError 10 10 10
     = ((nil, Some (OtherError ())),
        \<lparr>items = fmupd ''b'' \<lparr>Value = Val 2, Expiration = 0\<rparr> fmempty,
         defaultExpiration = 60, cleanupInterval = 0\<rparr>, 1)
   \<and> GetOrSet \<lparr>items = fmupd ''b'' \<lparr>Value = Val 2, Expiration = 0\<rparr> fmempty,
             defaultExpiration = 60, cleanupInterval = 0\<rparr> 0 ''k'' getValue 10 10 10
     = ((Val 42, None),
        \<lparr>items = fmupd ''k'' \<lparr>Value = Val 42, Expiration = 70\<rparr>
                   (fmupd ''b'' \<lparr>Value = Val 2, Expiration = 0\<rparr> fmempty),
         defaultExpiration = 60, cleanupInterval = 0\<rparr>, 1)
   \<and> GetOrSet \<lparr>items = fmupd ''b'' \<lparr>Value = Val 2, Expiration = 0\<rparr> fmempty,
             defaultExpiration = 60, cleanupInterval = 0\<rparr> 0 ''k'' getNil 10 10 10
     = ((nil, Some ErrNilValue),
        \<lparr>items = fmupd ''b'' \<lparr>Value = Val 2, Expiration = 0\<rparr> fmempty,
         defaultExpiration = 60, cleanupInterval = 0\<rparr>, 1)"
proof -
  let ?c = "\<lparr>items = fmupd ''b'' \<lparr>Value = Val (2::nat), Expiration = 0\<rparr> fmempty,
             defaultExpiration = 60, cleanupInterval = 0\<rparr>"
  have hit: "(Get ?c ''b'' 10 10 :: (nat iface \<times> unit error option) \<times> nat Cache)
               = ((Val 2, None), ?c)"
    by (simp add: Get_def Expired_def)
  have miss: "(Get ?c ''k'' 10 10 :: (nat iface \<times> unit error option) \<times> nat Cache)
               = ((nil, Some ErrKeyNotFound), ?c)"
    by (simp add: Get_def)
  note G = GetOrSet_outcomes [where c = ?c and ?c1.0 = ?c and w = 0 and ?now1.0 = 10
      and ?now2.0 = 10 and ?now3.0 = 10]
  show ?thesis
    using G [where key = "''b''" and fn = getValue] G [where key = "''k''" and fn = getError]
      G [where key = "''k''" and fn = getValue] G [where key = "''k''" and fn = getNil]
    by (simp add: hit miss getValue_def getError_def getNil_def word_sless_alt)
qed

text \<open>
  C10. For every key that is absent or expired (at the first clock reading of the call),
  if the compute function returns a \<^verbatim>\<open>nil\<close> value with no error then
  \<^verbatim>\<open>GetOrSet\<close> fails with \<^verbatim>\<open>ErrNilValue\<close>, an error the compute function did not
  return, and the store is exactly the one the compute function left; when the compute
  function leaves the store alone and the clock does not run backwards, there is no
  entry at the key afterwards.
\<close>

theorem GetOrSet_nil_value:
  fixes c :: "'v Cache" and fn :: "('v, 'e, 'w) compute"
  assumes "fmlookup (items c) key = None
           \<or> (\<exists>item. fmlookup (items c) key = Some item \<and> Expired item now1)"
    and "fn (snd (Get c key now1 now2 :: ('v iface \<times> 'e error option) \<times> 'v Cache)) w
           = ((nil, None), c2, w2)"
  shows "GetOrSet c w key fn now1 now2 now3 = ((nil, Some ErrNilValue), c2, w2)
       \<and> (now1 \<le>s now2
            \<and> c2 = snd (Get c key now1 now2 :: ('v iface \<times> 'e error option) \<times> 'v Cache) \<longrightarrow>
          fmlookup (items (fst (snd (GetOrSet c w key fn now1 now2 now3)))) key = None)"
proof -
  obtain e c1 where g: "(Get c key now1 now2 :: ('v iface \<times> 'e error option) \<times> 'v Cache) = ((nil, Some e), c1)"
    and k: "now1 \<le>s now2 \<longrightarrow> fmlookup (items c1) key = None"
    using Get_fails_store [OF assms(1), where ?'e = 'e] by metis
  have r: "GetOrSet c w key fn now1 now2 now3 = ((nil, Some ErrNilValue), c2, w2)"
    using g assms(2) by (simp add: GetOrSet_def Set_def SetWithExpiration_def)
  show ?thesis using r g k by simp
qed

theorem GetOrSet_nil_value_witness:
  "GetOrSet \<lparr>items = fmupd ''a'' \<lparr>Value = Val 1, Expiration = 5\<rparr> fmempty,
             defaultExpiration = 60, cleanupInterval = 0\<rparr> 0 ''k'' getNil 10 20 30
     = ((nil, Some ErrNilValue),
        \<lparr>items = fmupd ''a'' \<lparr>Value = Val 1, Expiration = 5\<rparr> fmempty,
         defaultExpiration = 60, cleanupInterval = 0\<rparr>, 1)
   \<and> GetOrSet \<lparr>items = fmupd ''a'' \<lparr>Value = Val 1, Expiration = 5\<rparr> fmempty,
             defaultExpiration = 60, cleanupInterval = 0\<rparr> 0 ''a'' getNil 10 20 30
     = ((nil, Some ErrNilValue),
        \<lparr>items = fmempty, defaultExpiration = 60, cleanupInterval = 0\<rparr>, 1)"
proof -
  let ?c = "\<lparr>items = fmupd ''a'' \<lparr>Value = Val (1::nat), Expiration = 5\<rparr> fmempty,
             defaultExpiration = 60, cleanupInterval = 0\<rparr>"
  let ?e = "\<lparr>items = fmempty, defaultExpiration = 60, cleanupInterval = (0::int64)\<rparr> :: nat Cache"
  have absent: "fmlookup (items ?c) ''k'' = None
           \<or> (\<exists>item. fmlookup (items ?c) ''k'' = Some item \<and> Expired item 10)"
    by simp
  have expired: "fmlookup (items ?c) ''a'' = None
           \<or> (\<exists>item. fmlookup (items ?c) ''a'' = Some item \<and> Expired item 10)"
    by (simp add: Expired_def word_sless_alt)
  have fn1: "getNil (snd (Get ?c ''k'' 10 20 :: (nat iface \<times> unit error option) \<times> nat Cache)) 0
               = ((nil, None), ?c, 1)"
    by (simp add: Get_def getNil_def)
  have fn2: "getNil (snd (Get ?c ''a'' 10 20 :: (nat iface \<times> unit error option) \<times> nat Cache)) 0
               = ((nil, None), ?e, 1)"
    by (simp add: Get_def getNil_def Expired_def word_sless_alt fmdrop_fmupd)
  show ?thesis
    using
      GetOrSet_nil_value [where fn = getNil and c = ?c and key = "''k''" and ?now1.0 = 10
        and ?now2.0 = 20 and ?now3.0 = 30 and w = 0 and ?c2.0 = ?c and ?w2.0 = 1,
        OF absent fn1]
      GetOrSet_nil_value [where fn = getNil and c = ?c and key = "''a''" and ?now1.0 = 10
        and ?now2.0 = 20 and ?now3.0 = 30 and w = 0 and ?c2.0 = ?e and ?w2.0 = 1,
        OF expired fn2]
    by simp
qed


section \<open>Stop\<close>

text \<open>With a cleanup interval that is not positive \<^verbatim>\<open>Stop\<close> sends nothing and returns;
  with a running cleanup goroutine the send is received and the goroutine returns; once
  the goroutine has returned, the send has no receiver.\<close>

lemma Stop_without_interval:
  "\<not> 0 <s cleanupInterval c \<Longrightarrow> Stop (c, r) = Some (c, r)"
  by (simp add: Stop_def)

lemma Stop_running:
  "0 <s cleanupInterval c \<Longrightarrow> Stop (c, Running) = Some (c, Returned)"
  by (simp add: Stop_def)

lemma Stop_returned:
  "0 <s cleanupInterval c \<Longrightarrow> Stop (c, Returned) = None"
  by (simp add: Stop_def)

text \<open>
  C2 says that a second \<^verbatim>\<open>Stop()\<close> returns without blocking. On a store made by
  \<^verbatim>\<open>New\<close> with a cleanup interval of one second, the first \<^verbatim>\<open>Stop()\<close> returns and
  leaves the cleanup goroutine returned; the second \<^verbatim>\<open>Stop()\<close> does not return.
\<close>

theorem Stop_twice_blocks:
  "Stop (New \<lparr>DefaultExpiration = 0, CleanupInterval = 1000000000\<rparr> :: nat Cache \<times> routine)
     = Some (\<lparr>items = fmempty, defaultExpiration = 0, cleanupInterval = 1000000000\<rparr>, Returned)
   \<and> Stop (\<lparr>items = fmempty, defaultExpiration = 0, cleanupInterval = 1000000000\<rparr> :: nat Cache,
           Returned)
     = None"
  by (simp add: Stop_def New_def word_sless_alt)


section \<open>Items\<close>

text \<open>\<^verbatim>\<open>Items\<close> leaves the store as it was, never lists an expired entry, and agrees
  with \<^verbatim>\<open>Expired\<close> on every entry whose expiration is not the instant of the call.\<close>

lemma Items_store_unchanged: "snd (Items c now) = c"
  by (simp add: Items_def)

lemma Items_never_expired:
  assumes "fmlookup (fst (Items c now)) k = Some v"
  shows "\<exists>it. fmlookup (items c) k = Some it \<and> \<not> Expired it now \<and> Value it = v"
  using assms
  by (auto simp: Items_lookup Expired_def word_sless_alt split: option.splits if_splits)

lemma Items_off_boundary:
  assumes "fmlookup (items c) k = Some it" and "Expiration it \<noteq> now"
  shows "fmlookup (fst (Items c now)) k = (if Expired it now then None else Some (Value it))"
proof -
  have "sint (Expiration it) \<noteq> sint now"
    using assms(2) by (simp add: word_eq_iff_signed [where ?'a = int])
  then show ?thesis
    using assms(1) by (auto simp: Items_lookup Expired_def word_sless_alt)
qed

text \<open>
  C3 says that \<^verbatim>\<open>Items()\<close> lists exactly the entries that are not expired as of the call.
  An entry stored at time 40 with duration 60 has expiration 100. At time 100
  \<^verbatim>\<open>Expired\<close> is false for it and \<^verbatim>\<open>Get\<close> returns its value, yet \<^verbatim>\<open>Items\<close>
  returns the empty mapping.
\<close>

theorem Items_omits_entry_expiring_now:
  "SetWithExpiration \<lparr>items = fmempty, defaultExpiration = 0, cleanupInterval = 0\<rparr>
       ''a'' (Val (1::nat)) 60 40
     = (None :: unit error option,
        \<lparr>items = fmupd ''a'' \<lparr>Value = Val 1, Expiration = 100\<rparr> fmempty,
         defaultExpiration = 0, cleanupInterval = 0\<rparr>)
   \<and> Items \<lparr>items = fmupd ''a'' \<lparr>Value = Val (1::nat), Expiration = 100\<rparr> fmempty,
            defaultExpiration = 0, cleanupInterval = 0\<rparr> 100
     = (fmempty,
        \<lparr>items = fmupd ''a'' \<lparr>Value = Val 1, Expiration = 100\<rparr> fmempty,
         defaultExpiration = 0, cleanupInterval = 0\<rparr>)
   \<and> Expired \<lparr>Value = Val (1::nat), Expiration = 100\<rparr> 100 = False
   \<and> Get \<lparr>items = fmupd ''a'' \<lparr>Value = Val (1::nat), Expiration = 100\<rparr> fmempty,
          defaultExpiration = 0, cleanupInterval = 0\<rparr> ''a'' 100 100
     = ((Val 1, None :: unit error option),
        \<lparr>items = fmupd ''a'' \<lparr>Value = Val 1, Expiration = 100\<rparr> fmempty,
         defaultExpiration = 0, cleanupInterval = 0\<rparr>)"
  by code_simp


section \<open>DeleteExpired\<close>

text \<open>\<^verbatim>\<open>DeleteExpired\<close> changes nothing but the mapping, and on every entry whose
  expiration is not negative it removes the entry exactly when \<^verbatim>\<open>Expired\<close> holds.\<close>

lemma DeleteExpired_config:
  "defaultExpiration (DeleteExpired c now) = defaultExpiration c
   \<and> cleanupInterval (DeleteExpired c now) = cleanupInterval c"
  by (simp add: DeleteExpired_def)

lemma DeleteExpired_absent:
  "fmlookup (items c) k = None \<Longrightarrow> fmlookup (items (DeleteExpired c now)) k = None"
  by (simp add: DeleteExpired_lookup)

lemma DeleteExpired_nonnegative:
  assumes "fmlookup (items c) k = Some it" and "0 \<le>s Expiration it"
  shows "fmlookup (items (DeleteExpired c now)) k = (if Expired it now then None else Some it)"
  using assms
  by (auto simp: DeleteExpired_lookup Expired_def word_sless_alt word_sle_eq signed_eq_0_iff)

text \<open>
  C7 says that \<^verbatim>\<open>DeleteExpired()\<close> removes exactly the entries whose expiration is
  non-zero and has passed. \<^verbatim>\<open>SetWithExpiration\<close> with the largest duration, at a clock
  of 1790000000000000000 ns, stores an expiration that has wrapped around to a negative
  number. One nanosecond later \<^verbatim>\<open>Expired\<close> holds for the entry and \<^verbatim>\<open>Get\<close> evicts
  it with \<^verbatim>\<open>ErrKeyExpired\<close>, yet \<^verbatim>\<open>DeleteExpired\<close> leaves the store as it is.
\<close>

theorem DeleteExpired_keeps_wrapped_expiration:
  "SetWithExpiration \<lparr>items = fmempty, defaultExpiration = 0, cleanupInterval = 0\<rparr>
       ''k'' (Val (1::nat)) 9223372036854775807 1790000000000000000
     = (None :: unit error option,
        \<lparr>items = fmupd ''k'' \<lparr>Value = Val 1, Expiration = - 7433372036854775809\<rparr> fmempty,
         defaultExpiration = 0, cleanupInterval = 0\<rparr>)
   \<and> Expired \<lparr>Value = Val (1::nat), Expiration = - 7433372036854775809\<rparr> 1790000000000000001
   \<and> DeleteExpired
        \<lparr>items = fmupd ''k'' \<lparr>Value = Val (1::nat), Expiration = - 7433372036854775809\<rparr> fmempty,
         defaultExpiration = 0, cleanupInterval = 0\<rparr> 1790000000000000001
     = \<lparr>items = fmupd ''k'' \<lparr>Value = Val 1, Expiration = - 7433372036854775809\<rparr> fmempty,
        defaultExpiration = 0, cleanupInterval = 0\<rparr>
   \<and> Get \<lparr>items = fmupd ''k'' \<lparr>Value = Val (1::nat), Expiration = - 7433372036854775809\<rparr> fmempty,
          defaultExpiration = 0, cleanupInterval = 0\<rparr>
        ''k'' 1790000000000000001 1790000000000000001
     = ((nil, Some (ErrKeyExpired :: unit error)),
        \<lparr>items = fmempty, defaultExpiration = 0, cleanupInterval = 0\<rparr>)"
  by code_simp

end
